theory Spec2Isabelle
  imports Main
begin

section \<open>Python values\<close>

text \<open>
  The GovESB wrapper (\<^verbatim>\<open>fast_api_builder/govesb/govesb.py\<close>) moves untyped Python values
  around: payloads, envelopes and HTTP response bodies.  They are modelled by the values
  that \<^verbatim>\<open>json.loads\<close> can produce, plus one constructor for any other Python object:
  \<^item> \<open>JNull\<close> is Python's \<^verbatim>\<open>None\<close> (also the default of every optional argument);
  \<^item> \<open>JStr\<close> is a \<^verbatim>\<open>str\<close> whose code points are below 256, one \<open>char\<close> per code point;
  \<^item> \<open>JObj\<close> is a \<^verbatim>\<open>dict\<close> with string keys, kept in insertion order;
  \<^item> \<open>JOpaque b\<close> is an object that \<^verbatim>\<open>json.dumps\<close> cannot serialise (a set, a
    \<^verbatim>\<open>Decimal\<close>, ...), with truth value \<open>b\<close>.
  Floating-point numbers are left out.
\<close>

datatype json =
    JNull
  | JBool bool
  | JInt int
  | JStr string
  | JList "json list"
  | JObj "(string \<times> json) list"
  | JOpaque bool

text \<open>Exceptions are values; \<open>Failure msg\<close> is a plain \<^verbatim>\<open>Exception(msg)\<close>.\<close>

datatype py_error =
    AttributeError
  | TypeError
  | ValueError
  | KeyError
  | BinasciiError
  | UnboundLocalError
  | TransportError
  | HTTPStatusError
  | JSONDecodeError
  | ValidationError
  | Failure string

text \<open>The truth value Python gives a value in \<^verbatim>\<open>if x:\<close>.\<close>

fun truthy :: "json \<Rightarrow> bool" where
  "truthy JNull = False"
| "truthy (JBool b) = b"
| "truthy (JInt i) = (i \<noteq> 0)"
| "truthy (JStr s) = (s \<noteq> [])"
| "truthy (JList xs) = (xs \<noteq> [])"
| "truthy (JObj kvs) = (kvs \<noteq> [])"
| "truthy (JOpaque b) = b"

text \<open>\<^verbatim>\<open>d[k] = v\<close> on a dict: an existing key keeps its place, a new key goes last.\<close>

fun dict_set :: "(string \<times> json) list \<Rightarrow> string \<Rightarrow> json \<Rightarrow> (string \<times> json) list" where
  "dict_set [] k v = [(k, v)]"
| "dict_set (kv # kvs) k v = (if fst kv = k then (k, v) # kvs else kv # dict_set kvs k v)"

text \<open>\<^verbatim>\<open>d.get(k, default)\<close> on a dict.\<close>

definition dict_get :: "(string \<times> json) list \<Rightarrow> string \<Rightarrow> json \<Rightarrow> json" where
  "dict_get kvs k dflt = (case map_of kvs k of None \<Rightarrow> dflt | Some v \<Rightarrow> v)"

text \<open>\<^verbatim>\<open>x.get(k, default)\<close> on any value: only a dict has the method.\<close>

fun py_get :: "json \<Rightarrow> string \<Rightarrow> json \<Rightarrow> py_error + json" where
  "py_get (JObj kvs) k dflt = Inr (dict_get kvs k dflt)"
| "py_get v k dflt = Inl AttributeError"

text \<open>\<^verbatim>\<open>x[k]\<close> with a string key: \<^verbatim>\<open>KeyError\<close> on a dict without the key,
  \<^verbatim>\<open>TypeError\<close> on anything that is not a dict.\<close>

fun py_getitem :: "json \<Rightarrow> string \<Rightarrow> py_error + json" where
  "py_getitem (JObj kvs) k = (case map_of kvs k of None \<Rightarrow> Inl KeyError | Some v \<Rightarrow> Inr v)"
| "py_getitem v k = Inl TypeError"

section \<open>\<^verbatim>\<open>json.dumps(payload, separators=(',', ':'))\<close>\<close>

text \<open>
  The standard library's encoder with its defaults (\<^verbatim>\<open>ensure_ascii=True\<close>) and the
  compact separators of \<^verbatim>\<open>trim_payload\<close>.  It raises \<^verbatim>\<open>TypeError\<close> when it meets an
  object it cannot serialise, anywhere in the value.
\<close>

fun serializable :: "json \<Rightarrow> bool" where
  "serializable (JList xs) = list_all serializable xs"
| "serializable (JObj kvs) = list_all (\<lambda>kv. serializable (snd kv)) kvs"
| "serializable (JOpaque b) = False"
| "serializable v = True"

fun digits :: "nat \<Rightarrow> string" where
  "digits n =
     (if n < 10 then [char_of (48 + n)] else digits (n div 10) @ [char_of (48 + n mod 10)])"

definition py_str_int :: "int \<Rightarrow> string" where
  "py_str_int i = (if i < 0 then CHR ''-'' # digits (nat (- i)) else digits (nat i))"

definition hex_digit :: "nat \<Rightarrow> char" where
  "hex_digit d = (if d < 10 then char_of (48 + d) else char_of (87 + d))"

text \<open>One character of a string literal: the short escapes, \<^verbatim>\<open>\u00XX\<close> for everything else
  outside the printable ASCII range, the character itself otherwise.\<close>

definition escape_char :: "char \<Rightarrow> string" where
  "escape_char c =
     (if c = CHR 0x22 then [CHR 0x5C, CHR 0x22]
      else if c = CHR 0x5C then [CHR 0x5C, CHR 0x5C]
      else if c = CHR 0x0A then [CHR 0x5C, CHR ''n'']
      else if c = CHR 0x0D then [CHR 0x5C, CHR ''r'']
      else if c = CHR 0x09 then [CHR 0x5C, CHR ''t'']
      else if c = CHR 0x0C then [CHR 0x5C, CHR ''f'']
      else if c = CHR 0x08 then [CHR 0x5C, CHR ''b'']
      else if (of_char c :: nat) < 32 \<or> 126 < (of_char c :: nat)
        then [CHR 0x5C, CHR ''u'', CHR ''0'', CHR ''0'',
              hex_digit (of_char c div 16), hex_digit (of_char c mod 16)]
      else [c])"

definition encode_basestring_ascii :: "string \<Rightarrow> string" where
  "encode_basestring_ascii s = CHR 0x22 # concat (map escape_char s) @ [CHR 0x22]"

fun join :: "string \<Rightarrow> string list \<Rightarrow> string" where
  "join sep [] = []"
| "join sep [x] = x"
| "join sep (x # y # ys) = x @ sep @ join sep (y # ys)"

text \<open>The text of a serialisable value.  (The equation for \<open>JOpaque\<close> is never used:
  \<open>trim_payload\<close> raises before.)\<close>

fun dumps :: "json \<Rightarrow> string" where
  "dumps JNull = ''null''"
| "dumps (JBool b) = (if b then ''true'' else ''false'')"
| "dumps (JInt i) = py_str_int i"
| "dumps (JStr s) = encode_basestring_ascii s"
| "dumps (JList xs) = ''['' @ join '','' (map dumps xs) @ '']''"
| "dumps (JObj kvs) =
     ''{'' @ join '','' (map (\<lambda>kv. encode_basestring_ascii (fst kv) @ '':'' @ dumps (snd kv)) kvs)
       @ ''}''"
| "dumps (JOpaque b) = []"

text \<open>\<^verbatim>\<open>GovEsb.trim_payload\<close> (lines 178-181).\<close>

definition trim_payload :: "json \<Rightarrow> py_error + string" where
  "trim_payload payload = (if serializable payload then Inr (dumps payload) else Inl TypeError)"

text \<open>\<^verbatim>\<open>str.encode("utf-8")\<close> on code points below 256.\<close>

definition utf8_encode :: "string \<Rightarrow> string" where
  "utf8_encode s =
     concat (map (\<lambda>c. if (of_char c :: nat) < 128 then [c]
                       else [char_of (192 + (of_char c :: nat) div 64),
                             char_of (128 + (of_char c :: nat) mod 64)]) s)"

section \<open>\<^verbatim>\<open>base64.b64encode\<close> and \<^verbatim>\<open>base64.b64decode\<close>\<close>

text \<open>
  The standard alphabet of RFC 4648.  Bytes are \<open>char\<close>s; the arithmetic is on their
  values: \<open>x div 4\<close> is \<^verbatim>\<open>x >> 2\<close>, \<open>x mod 4 * 16\<close> is \<^verbatim>\<open>(x & 3) << 4\<close>, and a sum of two
  parts with no common bit is their \<^verbatim>\<open>|\<close>.
\<close>

definition b64_char :: "nat \<Rightarrow> char" where
  "b64_char i =
     (if i < 26 then char_of (65 + i)
      else if i < 52 then char_of (71 + i)
      else if i < 62 then char_of (i - 4)
      else if i = 62 then CHR ''+'' else CHR ''/'')"

definition b64_index :: "char \<Rightarrow> nat option" where
  "b64_index c =
     (let n = (of_char c :: nat) in
      if 65 \<le> n \<and> n \<le> 90 then Some (n - 65)
      else if 97 \<le> n \<and> n \<le> 122 then Some (n - 71)
      else if 48 \<le> n \<and> n \<le> 57 then Some (n + 4)
      else if n = 43 then Some 62
      else if n = 47 then Some 63
      else None)"

text \<open>\<^verbatim>\<open>b64encode\<close>: three bytes give four characters, a shorter tail is padded with
  \<^verbatim>\<open>=\<close>.\<close>

fun b64encode :: "string \<Rightarrow> string" where
  "b64encode [] = []"
| "b64encode [a] =
     (let x = (of_char a :: nat) in
      [b64_char (x div 4), b64_char (x mod 4 * 16), CHR ''='', CHR ''=''])"
| "b64encode [a, b] =
     (let x = (of_char a :: nat); y = (of_char b :: nat) in
      [b64_char (x div 4), b64_char (x mod 4 * 16 + y div 16),
       b64_char (y mod 16 * 4), CHR ''=''])"
| "b64encode (a # b # c # rest) =
     (let x = (of_char a :: nat); y = (of_char b :: nat); z = (of_char c :: nat) in
      [b64_char (x div 4), b64_char (x mod 4 * 16 + y div 16),
       b64_char (y mod 16 * 4 + z div 64), b64_char (z mod 64)] @ b64encode rest)"

text \<open>
  The decoding loop of \<^verbatim>\<open>binascii.a2b_base64\<close> in its default, non-strict mode, which
  \<^verbatim>\<open>b64decode(s)\<close> calls: characters outside the alphabet are skipped, a pad that
  completes a quad ends the input, and input that ends inside a quad raises
  \<^verbatim>\<open>binascii.Error\<close> ("Incorrect padding").
\<close>

fun a2b_loop :: "string \<Rightarrow> nat \<Rightarrow> nat \<Rightarrow> nat \<Rightarrow> string \<Rightarrow> py_error + string" where
  "a2b_loop [] quad_pos leftchar pads out =
     (if quad_pos \<noteq> 0 then Inl BinasciiError else Inr out)"
| "a2b_loop (c # cs) quad_pos leftchar pads out =
     (if c = CHR ''='' then
        (if 2 \<le> quad_pos \<and> 4 \<le> quad_pos + (pads + 1) then Inr out
         else a2b_loop cs quad_pos leftchar (if 2 \<le> quad_pos then pads + 1 else pads) out)
      else case b64_index c of
        None \<Rightarrow> a2b_loop cs quad_pos leftchar pads out
      | Some v \<Rightarrow>
          (if quad_pos = 0 then a2b_loop cs 1 v 0 out
           else if quad_pos = 1 then
             a2b_loop cs 2 (v mod 16) 0 (out @ [char_of (leftchar * 4 + v div 16)])
           else if quad_pos = 2 then
             a2b_loop cs 3 (v mod 4) 0 (out @ [char_of (leftchar * 16 + v div 4)])
           else a2b_loop cs 0 0 0 (out @ [char_of (leftchar * 64 + v)])))"

definition is_ascii :: "string \<Rightarrow> bool" where
  "is_ascii s = list_all (\<lambda>c. (of_char c :: nat) < 128) s"

text \<open>\<^verbatim>\<open>b64decode(s)\<close>: a \<^verbatim>\<open>str\<close> must be ASCII (\<^verbatim>\<open>ValueError\<close> otherwise); \<^verbatim>\<open>None\<close>, a
  number, a list or a dict is not bytes-like (\<^verbatim>\<open>TypeError\<close>).  The values this program
  passes come from parsed JSON, so an opaque object is taken not to be bytes-like either.\<close>

fun b64decode :: "json \<Rightarrow> py_error + string" where
  "b64decode (JStr s) = (if is_ascii s then a2b_loop s 0 0 0 [] else Inl ValueError)"
| "b64decode v = Inl TypeError"

section \<open>The signature library\<close>

text \<open>
  ECDSA with SHA-256 is the \<^verbatim>\<open>cryptography\<close> package's, not this program's: it is a
  parameter.  \<open>ec_sign key nonce message\<close> is \<^verbatim>\<open>private_key.sign(message, ECDSA(SHA256()))\<close>,
  where \<open>nonce\<close> is the randomness the library draws for that call;
  \<open>ec_verify key signature message\<close> is \<open>False\<close> exactly when
  \<^verbatim>\<open>public_key.verify(signature, message, ECDSA(SHA256()))\<close> raises \<^verbatim>\<open>InvalidSignature\<close>.
  Key objects are named by their PEM text.
\<close>

type_synonym ec_key = string

record ecdsa =
  ec_sign :: "ec_key \<Rightarrow> nat \<Rightarrow> string \<Rightarrow> string"
  ec_verify :: "ec_key \<Rightarrow> string \<Rightarrow> string \<Rightarrow> bool"

text \<open>A stand-in scheme for evaluating the model on concrete inputs: the signature is
  the nonce, the key and the message; a public key matches the private key equal to it.\<close>

definition fixture_ecdsa :: ecdsa where
  "fixture_ecdsa =
     \<lparr>ec_sign = (\<lambda>sk nonce msg. char_of nonce # sk @ msg),
      ec_verify = (\<lambda>pk sg msg. case sg of [] \<Rightarrow> False | c # rest \<Rightarrow> rest = pk @ msg)\<rparr>"

section \<open>The \<^verbatim>\<open>GovEsb\<close> object\<close>

text \<open>The attributes set by \<^verbatim>\<open>__init__\<close> (lines 32-48); \<open>None\<close> is Python's \<^verbatim>\<open>None\<close>.
  Clock readings and \<^verbatim>\<open>expires_in\<close> are whole seconds.\<close>

record govesb =
  client_id :: "string option"
  client_secret :: "string option"
  grant_type :: "string option"
  private_key :: "ec_key option"
  public_key :: "ec_key option"
  engine_url :: "string option"
  token_url :: "string option"
  timeout :: "nat option"
  access_token :: json
  token_expiry :: "int option"
  initialized :: bool

definition new_govesb :: govesb where
  "new_govesb =
     \<lparr>client_id = None, client_secret = None, grant_type = None, private_key = None,
      public_key = None, engine_url = None, token_url = None, timeout = None,
      access_token = JNull, token_expiry = None, initialized = False\<rparr>"

text \<open>
  Modelled from the spec: the audit sink of \<^verbatim>\<open>fast_api_builder.utils.error_logging\<close>
  (\<^verbatim>\<open>log_govesb_calls\<close>, \<^verbatim>\<open>log_warning\<close>, \<^verbatim>\<open>log_exception\<close>; the spec's
  \<^verbatim>\<open>log_call(apiCode, request, response)\<close>, \<^verbatim>\<open>log_warning(text)\<close>, \<^verbatim>\<open>log_error(error)\<close>),
  whose source is not in the repository's tree: a call records its arguments and returns.
  Together with the HTTP calls and the calls of the caller's \<^verbatim>\<open>process_feedback\<close>, these
  are the events of a run, in order.
\<close>

datatype event =
    TokenPost "string option"
  | BusPost "string option" json json
  | LogWarning
  | LogException py_error
  | LogCall "string option" json json
  | ProcessFeedback json

section \<open>Signing and verifying\<close>

text \<open>\<^verbatim>\<open>GovEsb.sign_payload\<close> (lines 183-191).\<close>

definition sign_payload :: "ecdsa \<Rightarrow> govesb \<Rightarrow> nat \<Rightarrow> json \<Rightarrow> py_error + string" where
  "sign_payload lib self nonce payload =
     (case private_key self of
        None \<Rightarrow> Inl AttributeError
      | Some sk \<Rightarrow>
          (case trim_payload payload of
             Inl e \<Rightarrow> Inl e
           | Inr text \<Rightarrow> Inr (b64encode (ec_sign lib sk nonce (utf8_encode text)))))"

text \<open>\<^verbatim>\<open>GovEsb.verify_signature\<close> (lines 193-205): the \<^verbatim>\<open>try\<close> catches
  \<^verbatim>\<open>InvalidSignature\<close> and nothing else.\<close>

definition verify_signature :: "ecdsa \<Rightarrow> govesb \<Rightarrow> json \<Rightarrow> json \<Rightarrow> py_error + bool" where
  "verify_signature lib self signature payload =
     (case public_key self of
        None \<Rightarrow> Inl AttributeError
      | Some pk \<Rightarrow>
          (case b64decode signature of
             Inl e \<Rightarrow> Inl e
           | Inr sg \<Rightarrow>
               (case trim_payload payload of
                  Inl e \<Rightarrow> Inl e
                | Inr text \<Rightarrow> Inr (ec_verify lib pk sg (utf8_encode text)))))"

section \<open>The envelope builder\<close>

text \<open>The \<^verbatim>\<open>data\<close> dict of \<^verbatim>\<open>GovEsb.build_esb_payload\<close> (lines 220-237).\<close>

definition esb_data ::
  "json \<Rightarrow> json \<Rightarrow> json \<Rightarrow> json \<Rightarrow> json \<Rightarrow> json \<Rightarrow> (string \<times> json) list" where
  "esb_data payload api_code success message errors validation_errors =
     (let data = [(''esbBody'', payload)];
          data = (if truthy api_code then dict_set data ''apiCode'' api_code else data);
          data = (if success \<noteq> JNull then dict_set data ''success'' success else data);
          data = (if truthy message then dict_set data ''message'' message else data);
          data = (if truthy errors then dict_set data ''errors'' errors else data);
          data = (if truthy validation_errors
                  then dict_set data ''validationErrors'' validation_errors else data)
      in data)"

text \<open>\<^verbatim>\<open>GovEsb.build_esb_payload\<close> (lines 213-242).\<close>

definition build_esb_payload ::
  "ecdsa \<Rightarrow> govesb \<Rightarrow> nat \<Rightarrow> json \<Rightarrow> json \<Rightarrow> json \<Rightarrow> json \<Rightarrow> json \<Rightarrow> json \<Rightarrow> py_error + json" where
  "build_esb_payload lib self nonce payload api_code success message errors validation_errors =
     (let data = JObj (esb_data payload api_code success message errors validation_errors) in
      case sign_payload lib self nonce data of
        Inl e \<Rightarrow> Inl e
      | Inr sg \<Rightarrow> Inr (JObj [(''data'', data), (''signature'', JStr sg)]))"

text \<open>The order in which \<^verbatim>\<open>build_esb_payload\<close> assigns the keys of \<^verbatim>\<open>data\<close>.\<close>

definition field_order :: "string list" where
  "field_order =
     [''esbBody'', ''apiCode'', ''success'', ''message'', ''errors'', ''validationErrors'']"

text \<open>An object whose keys are loaded, for evaluating the model on concrete inputs.\<close>

definition fixture_govesb :: govesb where
  "fixture_govesb =
     new_govesb\<lparr>private_key := Some ''k'', public_key := Some ''k'',
       engine_url := Some ''https://esb''\<rparr>"

section \<open>HTTP\<close>

text \<open>
  What \<^verbatim>\<open>await client.post(...)\<close> does is the environment's choice: it raises (no
  connection, timeout, unusable URL), or it returns a response.  Of a response the program
  reads the status and \<^verbatim>\<open>response.json()\<close>, which is \<open>None\<close> here when the body is not
  JSON (\<^verbatim>\<open>JSONDecodeError\<close>).
\<close>

record response =
  status_code :: nat
  json_body :: "json option"

datatype http_outcome = TransportFailure | Responded response

text \<open>\<^verbatim>\<open>response.raise_for_status()\<close> passes for 2xx only.\<close>

definition is_success :: "response \<Rightarrow> bool" where
  "is_success r = (200 \<le> status_code r \<and> status_code r \<le> 299)"

section \<open>The token\<close>

text \<open>The number \<^verbatim>\<open>time.time() + x - 60\<close> needs from \<^verbatim>\<open>x\<close>: an \<^verbatim>\<open>int\<close>, or a \<^verbatim>\<open>bool\<close>
  (which Python counts as 0 or 1); anything else is a \<^verbatim>\<open>TypeError\<close>.\<close>

fun py_number :: "json \<Rightarrow> int option" where
  "py_number (JInt i) = Some i"
| "py_number (JBool b) = Some (if b then 1 else 0)"
| "py_number v = None"

text \<open>
  \<^verbatim>\<open>GovEsb.request_esb_token\<close> (lines 119-151) from the moment the POST has completed:
  \<open>reply\<close> is what the POST did, \<open>now\<close> the reading of \<^verbatim>\<open>time.time()\<close> on line 146.
  Every exception ends in the handler, which logs and returns \<^verbatim>\<open>False\<close> with the object
  as it is at that moment.
\<close>

definition token_failed :: "govesb \<Rightarrow> py_error \<Rightarrow> (bool \<times> govesb) \<times> event list" where
  "token_failed self e = ((False, self), [LogException e])"

definition request_esb_token_finish ::
  "govesb \<Rightarrow> int \<Rightarrow> http_outcome \<Rightarrow> (bool \<times> govesb) \<times> event list" where
  "request_esb_token_finish self now reply =
     (case reply of
        TransportFailure \<Rightarrow> token_failed self TransportError
      | Responded r \<Rightarrow>
          if \<not> is_success r then token_failed self HTTPStatusError
          else
            (case json_body r of
               None \<Rightarrow> token_failed self JSONDecodeError
             | Some data \<Rightarrow>
                 (case py_getitem data ''access_token'' of
                    Inl e \<Rightarrow> token_failed self e
                  | Inr tok \<Rightarrow>
                      (let self1 = self\<lparr>access_token := tok\<rparr> in
                       case py_getitem data ''expires_in'' of
                         Inl e \<Rightarrow> token_failed self1 e
                       | Inr x \<Rightarrow>
                           (case py_number x of
                              None \<Rightarrow> token_failed self1 TypeError
                            | Some n \<Rightarrow>
                                ((True, self1\<lparr>token_expiry := Some (now + n - 60)\<rparr>), []))))))"

text \<open>The whole of \<^verbatim>\<open>request_esb_token\<close>: the POST to the token endpoint, then the above.\<close>

definition request_esb_token ::
  "govesb \<Rightarrow> int \<Rightarrow> http_outcome \<Rightarrow> (bool \<times> govesb) \<times> event list" where
  "request_esb_token self now reply =
     (let (res, evs) = request_esb_token_finish self now reply
      in (res, TokenPost (token_url self) # evs))"

section \<open>\<^verbatim>\<open>get_instance\<close> under the event loop\<close>

text \<open>
  \<^verbatim>\<open>GovEsb.get_instance\<close> (lines 50-69) is a coroutine.  The event loop runs one coroutine
  at a time and switches only where one waits: here, at the \<^verbatim>\<open>await client.post\<close> inside
  \<^verbatim>\<open>request_esb_token\<close>.  A call is therefore a task that moves from one waiting point to
  the next in one uninterrupted step.  Neither method takes a lock: the class's
  \<^verbatim>\<open>_lock\<close> is used in \<^verbatim>\<open>__new__\<close> only (lines 24-30).
\<close>

datatype task =
    Start
  | AwaitInitRetry
  | AwaitRefresh
  | Finished "py_error + unit"

text \<open>Truth value of an attribute that is \<^verbatim>\<open>None\<close> or a \<^verbatim>\<open>str\<close>.\<close>

definition opt_truthy :: "string option \<Rightarrow> bool" where
  "opt_truthy x = (case x of None \<Rightarrow> False | Some s \<Rightarrow> s \<noteq> [])"

text \<open>Lines 65-69: compare the clock with the expiry (comparing with \<^verbatim>\<open>None\<close> is a
  \<^verbatim>\<open>TypeError\<close>); an expired token starts a POST to the token endpoint.\<close>

definition expiry_check :: "govesb \<Rightarrow> int \<Rightarrow> task \<times> event list" where
  "expiry_check self now =
     (case token_expiry self of
        None \<Rightarrow> (Finished (Inl TypeError), [])
      | Some expiry \<Rightarrow>
          if expiry \<le> now then (AwaitRefresh, [TokenPost (token_url self)])
          else (Finished (Inr ()), []))"

text \<open>From the call to the first waiting point (lines 53-66).\<close>

definition get_instance_start :: "govesb option \<Rightarrow> int \<Rightarrow> task \<times> event list" where
  "get_instance_start inst now =
     (case inst of
        None \<Rightarrow> (Finished (Inl (Failure ''GovEsb service is not initialized.'')), [])
      | Some self \<Rightarrow>
          if \<not> initialized self then
            (if opt_truthy (client_id self) \<and> opt_truthy (client_secret self)
                \<and> opt_truthy (grant_type self) \<and> opt_truthy (token_url self)
             then (AwaitInitRetry, [LogWarning, TokenPost (token_url self)])
             else (Finished (Inl (Failure ''GovEsb service is not initialized.'')), []))
          else expiry_check self now)"

text \<open>The class attribute \<^verbatim>\<open>_instance\<close>, the calls in flight and what has happened so far.\<close>

record world =
  the_instance :: "govesb option"
  tasks :: "task list"
  trace :: "event list"

text \<open>One turn of the event loop: which task runs, the clock readings it gets, and, for
  a task that was waiting for its POST, what the POST did.\<close>

record turn =
  task_id :: nat
  clock1 :: int
  clock2 :: int
  reply :: http_outcome

definition resume_task :: "govesb \<Rightarrow> task \<Rightarrow> turn \<Rightarrow> govesb \<times> task \<times> event list" where
  "resume_task self t u =
     (case t of
        AwaitInitRetry \<Rightarrow>
          (let ((ok, self'), evs) = request_esb_token_finish self (clock1 u) (reply u) in
           if \<not> ok then (self', Finished (Inl (Failure ''GovEsb service is not initialized.'')), evs)
           else (let (t', evs') = expiry_check self' (clock2 u) in (self', t', evs @ evs')))
      | AwaitRefresh \<Rightarrow>
          (let ((ok, self'), evs) = request_esb_token_finish self (clock1 u) (reply u) in
           if \<not> ok then (self', Finished (Inl (Failure ''GovEsb token expired. Retry to update'')), evs)
           else (self', Finished (Inr ()), evs))
      | _ \<Rightarrow> (self, t, []))"

definition step :: "world \<Rightarrow> turn \<Rightarrow> world" where
  "step w u =
     (let i = task_id u in
      if length (tasks w) \<le> i then w
      else
        (case tasks w ! i of
           Start \<Rightarrow>
             (let (t', evs) = get_instance_start (the_instance w) (clock1 u) in
              w\<lparr>tasks := (tasks w)[i := t'], trace := trace w @ evs\<rparr>)
         | Finished r \<Rightarrow> w
         | t \<Rightarrow>
             (case the_instance w of
                None \<Rightarrow> w
              | Some self \<Rightarrow>
                  (let (self', t', evs) = resume_task self t u in
                   w\<lparr>the_instance := Some self', tasks := (tasks w)[i := t'],
                     trace := trace w @ evs\<rparr>))))"

definition run :: "world \<Rightarrow> turn list \<Rightarrow> world" where
  "run w us = foldl step w us"

fun is_token_post :: "event \<Rightarrow> bool" where
  "is_token_post (TokenPost url) = True"
| "is_token_post ev = False"

text \<open>The number of HTTP calls to the token endpoint so far.\<close>

definition token_posts :: "world \<Rightarrow> nat" where
  "token_posts w = length (filter is_token_post (trace w))"

text \<open>The turn in which task \<open>i\<close> starts at time \<open>now\<close>.\<close>

definition start_turn :: "nat \<Rightarrow> int \<Rightarrow> turn" where
  "start_turn i now = \<lparr>task_id = i, clock1 = now, clock2 = now, reply = TransportFailure\<rparr>"

text \<open>The turns in which one call after the other starts, call \<open>i\<close> at the \<open>i\<close>-th of
  the given times, before any POST has completed.\<close>

definition start_all :: "int list \<Rightarrow> turn list" where
  "start_all nows = map (\<lambda>(i, now). start_turn i now) (enumerate 0 nows)"

section \<open>\<^verbatim>\<open>consume\<close>\<close>

text \<open>\<^verbatim>\<open>GovEsvData\<close> of \<^verbatim>\<open>schemas.py\<close>, the value \<^verbatim>\<open>consume\<close> returns.\<close>

record GovEsvData =
  success :: bool
  requestId :: "nat option"
  esbBody :: json
  message :: "string option"
  errors :: "int list"
  validationErrors :: "string list"

text \<open>The \<^verbatim>\<open>api_code\<close> of \<^verbatim>\<open>consume\<close> is a \<^verbatim>\<open>str\<close> or \<^verbatim>\<open>None\<close>: as an argument of
  \<^verbatim>\<open>build_esb_payload\<close>, and as the f-string \<^verbatim>\<open>{api_code}\<close> prints it.\<close>

definition py_of_opt :: "string option \<Rightarrow> json" where
  "py_of_opt x = (case x of None \<Rightarrow> JNull | Some s \<Rightarrow> JStr s)"

definition py_format_opt :: "string option \<Rightarrow> string" where
  "py_format_opt x = (case x of None \<Rightarrow> ''None'' | Some s \<Rightarrow> s)"

text \<open>What one call of \<^verbatim>\<open>consume\<close> gets from outside: what the POST does, the randomness
  of the two signing calls (one for the request, one for the audit record), and the value
  of \<^verbatim>\<open>uuid.uuid4()\<close>.\<close>

record consume_env =
  bus_reply :: http_outcome
  nonce_post :: nat
  nonce_log :: nat
  fresh_uuid :: nat

text \<open>
  The handler of \<^verbatim>\<open>consume\<close> (lines 275-287).  Its log message reads
  \<^verbatim>\<open>response.request.content\<close> and \<^verbatim>\<open>response.content\<close>: \<open>resp\<close> is the local variable
  \<^verbatim>\<open>response\<close>, \<open>None\<close> while nothing has been assigned to it, and reading it then raises
  \<^verbatim>\<open>UnboundLocalError\<close> out of the handler.
\<close>

definition consume_except ::
  "py_error \<Rightarrow> response option \<Rightarrow> string option \<Rightarrow> consume_env
     \<Rightarrow> (py_error + GovEsvData) \<times> event list" where
  "consume_except e resp api_code env =
     (case resp of
        None \<Rightarrow> (Inl UnboundLocalError, [])
      | Some r \<Rightarrow>
          (Inr \<lparr>success = False, requestId = Some (fresh_uuid env), esbBody = JObj [],
                message = Some (''Failed to consume from apiCode: '' @ py_format_opt api_code),
                errors = [], validationErrors = []\<rparr>,
           [LogException e]))"

text \<open>
  Lines 260-273, with the response in hand: the result or the exception raised, and the
  events before it.  \<open>validate js\<close> is pydantic's \<^verbatim>\<open>GovEsvResponse(**js).data\<close>.
\<close>

definition consume_response ::
  "ecdsa \<Rightarrow> (json \<Rightarrow> py_error + GovEsvData) \<Rightarrow> govesb \<Rightarrow> consume_env \<Rightarrow> json
     \<Rightarrow> string option \<Rightarrow> response \<Rightarrow> (py_error + GovEsvData) \<times> event list" where
  "consume_response lib validate self env payload api_code r =
     (if \<not> is_success r then (Inl HTTPStatusError, [])
      else
        (case json_body r of
           None \<Rightarrow> (Inl JSONDecodeError, [])
         | Some js \<Rightarrow>
             (case build_esb_payload lib self (nonce_log env) payload (py_of_opt api_code)
                     JNull JNull JNull JNull of
                Inl e \<Rightarrow> (Inl e, [])
              | Inr request \<Rightarrow>
                  (let evs = [LogCall api_code request js] in
                   case py_getitem js ''signature'' of
                     Inl e \<Rightarrow> (Inl e, evs)
                   | Inr sg \<Rightarrow>
                       (case py_getitem js ''data'' of
                          Inl e \<Rightarrow> (Inl e, evs)
                        | Inr d \<Rightarrow>
                            (case verify_signature lib self sg d of
                               Inl e \<Rightarrow> (Inl e, evs)
                             | Inr ok \<Rightarrow>
                                 if \<not> ok
                                 then (Inl (Failure ''Signature verification failed!''), evs)
                                 else (validate js, evs)))))))"

text \<open>\<^verbatim>\<open>GovEsb.consume\<close> (lines 244-287).\<close>

definition consume ::
  "ecdsa \<Rightarrow> (json \<Rightarrow> py_error + GovEsvData) \<Rightarrow> govesb \<Rightarrow> consume_env \<Rightarrow> json
     \<Rightarrow> string option \<Rightarrow> (py_error + GovEsvData) \<times> event list" where
  "consume lib validate self env payload api_code =
     (case build_esb_payload lib self (nonce_post env) payload (py_of_opt api_code)
             JNull JNull JNull JNull of
        Inl e \<Rightarrow> consume_except e None api_code env
      | Inr request \<Rightarrow>
          (let posted = [BusPost (engine_url self) (access_token self) request] in
           case bus_reply env of
             TransportFailure \<Rightarrow>
               (let (res, evs) = consume_except TransportError None api_code env
                in (res, posted @ evs))
           | Responded r \<Rightarrow>
               (case consume_response lib validate self env payload api_code r of
                  (Inr v, evs) \<Rightarrow> (Inr v, posted @ evs)
                | (Inl e, evs) \<Rightarrow>
                    (let (res, evs') = consume_except e (Some r) api_code env
                     in (res, posted @ evs @ evs')))))"

text \<open>A stand-in for pydantic's validation, for concrete inputs: it reads \<^verbatim>\<open>success\<close> and
  \<^verbatim>\<open>esbBody\<close> of \<^verbatim>\<open>data\<close>.\<close>

definition fixture_validate :: "json \<Rightarrow> py_error + GovEsvData" where
  "fixture_validate js =
     (case py_getitem js ''data'' of
        Inl e \<Rightarrow> Inl ValidationError
      | Inr d \<Rightarrow>
          (case py_getitem d ''success'' of
             Inr (JBool b) \<Rightarrow>
               Inr \<lparr>success = b, requestId = None,
                    esbBody = (case py_getitem d ''esbBody'' of Inr v \<Rightarrow> v | Inl e \<Rightarrow> JObj []),
                    message = None, errors = [], validationErrors = []\<rparr>
           | _ \<Rightarrow> Inl ValidationError))"

section \<open>\<^verbatim>\<open>aconsume\<close>\<close>

text \<open>Lines 346-360: build the acknowledgment, log the exchange, return the envelope.\<close>

definition aconsume_ack ::
  "ecdsa \<Rightarrow> govesb \<Rightarrow> nat \<Rightarrow> json \<Rightarrow> json \<Rightarrow> json \<Rightarrow> json \<Rightarrow> event list
     \<Rightarrow> (py_error + json) \<times> event list" where
  "aconsume_ack lib self nonce data ok msg body evs =
     (case build_esb_payload lib self nonce body JNull ok msg JNull JNull of
        Inl e \<Rightarrow> (Inl e, evs)
      | Inr esb_payload \<Rightarrow> (Inr esb_payload, evs @ [LogCall None esb_payload data]))"

text \<open>
  \<^verbatim>\<open>GovEsb.aconsume\<close> (lines 289-360).  \<open>process_feedback body\<close> is the caller's coroutine:
  the tuple \<^verbatim>\<open>(success, message, esbBody)\<close> it returns, or the exception it raises (or
  that unpacking its result raises).  Each call of it is an event.
\<close>

definition aconsume ::
  "ecdsa \<Rightarrow> govesb \<Rightarrow> nat \<Rightarrow> (string \<times> json) list
     \<Rightarrow> (json \<Rightarrow> py_error + json \<times> json \<times> json) \<Rightarrow> (py_error + json) \<times> event list" where
  "aconsume lib self nonce req_body process_feedback =
     (let data = dict_get req_body ''data'' (JObj []) in
      case verify_signature lib self (dict_get req_body ''signature'' JNull) data of
        Inl e \<Rightarrow> (Inl e, [])
      | Inr ok \<Rightarrow>
          if \<not> ok then
            aconsume_ack lib self nonce data (JBool False)
              (JStr ''Signature verification failed!'') (JObj []) []
          else
            (case py_get data ''esbBody'' (JObj []) of
               Inl e \<Rightarrow> (Inl e, [])
             | Inr body \<Rightarrow>
                 (case process_feedback body of
                    Inl e \<Rightarrow> (Inl e, [ProcessFeedback body])
                  | Inr (ok', msg, body') \<Rightarrow>
                      aconsume_ack lib self nonce data ok' msg body' [ProcessFeedback body])))"

section \<open>Base64 round trip\<close>

lemma sextet_bounds:
  fixes n y :: nat
  assumes "y < 256"
  shows "n mod 4 * 16 + y div 16 < 64" "n mod 16 * 4 + y div 64 < 64"
proof -
  have "n mod 4 \<le> 3" "n mod 16 \<le> 15" by simp_all
  moreover have "y div 16 \<le> 15" "y div 64 \<le> 3" using assms by simp_all
  ultimately show "n mod 4 * 16 + y div 16 < 64" "n mod 16 * 4 + y div 64 < 64"
    by linarith+
qed

lemma byte_first:
  fixes n y :: nat
  assumes "y < 256"
  shows "n div 4 * 4 + (n mod 4 * 16 + y div 16) div 16 = n"
proof -
  from assms have "y div 16 < 16" by simp
  then have "(n mod 4 * 16 + y div 16) div 16 = n mod 4" by simp
  then show ?thesis by simp
qed

lemma byte_second:
  fixes n x z :: nat
  assumes "n < 256" "z < 256"
  shows "(x mod 4 * 16 + n div 16) mod 16 * 16 + (n mod 16 * 4 + z div 64) div 4 = n"
proof -
  from assms have "n div 16 < 16" "z div 64 < 4" by simp_all
  then have "(x mod 4 * 16 + n div 16) mod 16 = n div 16"
    and "(n mod 16 * 4 + z div 64) div 4 = n mod 16" by simp_all
  then show ?thesis by simp
qed

lemma byte_third:
  fixes n y :: nat
  assumes "n < 256"
  shows "(y mod 16 * 4 + n div 64) mod 4 * 64 + n mod 64 = n"
proof -
  from assms have "n div 64 < 4" by simp
  then have "(y mod 16 * 4 + n div 64) mod 4 = n div 64" by simp
  then show ?thesis by simp
qed

lemma b64_index_char: "i < 64 \<Longrightarrow> b64_index (b64_char i) = Some i"
  by (auto simp: b64_index_def b64_char_def Let_def)

lemma b64_char_not_pad: "i < 64 \<Longrightarrow> b64_char i \<noteq> CHR ''=''"
  using b64_index_char [of i] by (auto simp: b64_index_def)

lemma b64_char_ascii: "(of_char (b64_char i) :: nat) < 128"
  by (auto simp: b64_char_def)

lemma a2b_loop_data:
  "i < 64 \<Longrightarrow> a2b_loop (b64_char i # cs) q l p out =
     (if q = 0 then a2b_loop cs 1 i 0 out
      else if q = 1 then a2b_loop cs 2 (i mod 16) 0 (out @ [char_of (l * 4 + i div 16)])
      else if q = 2 then a2b_loop cs 3 (i mod 4) 0 (out @ [char_of (l * 16 + i div 4)])
      else a2b_loop cs 0 0 0 (out @ [char_of (l * 64 + i)]))"
  by (simp add: b64_index_char b64_char_not_pad)

lemma a2b_loop_pad:
  "a2b_loop (CHR ''='' # cs) q l p out =
     (if 2 \<le> q \<and> 4 \<le> q + (p + 1) then Inr out
      else a2b_loop cs q l (if 2 \<le> q then p + 1 else p) out)"
  by simp

lemma a2b_loop_b64encode: "a2b_loop (b64encode bs) 0 l 0 out = Inr (out @ bs)"
proof (induction bs arbitrary: l out rule: b64encode.induct)
  case 1
  show ?case by simp
next
  case (2 a)
  define x :: nat where "x = of_char a"
  have x: "x < 256" by (simp add: x_def)
  have s: "x div 4 < 64" "x mod 4 * 16 < 64"
    using x sextet_bounds(1) [of 0 x] by simp_all
  have "x div 4 * 4 + (x mod 4 * 16) div 16 = x"
    using byte_first [of 0 x] by simp
  then have "char_of (x div 4 * 4 + (x mod 4 * 16) div 16) = a"
    by (simp add: x_def)
  then show ?case
    by (simp add: Let_def a2b_loop_data a2b_loop_pad s del: a2b_loop.simps(2) flip: x_def)
next
  case (3 a b)
  define x :: nat where "x = of_char a"
  define y :: nat where "y = of_char b"
  have xy: "x < 256" "y < 256" by (simp_all add: x_def y_def)
  have s: "x div 4 < 64" "x mod 4 * 16 + y div 16 < 64" "y mod 16 * 4 < 64"
    using xy sextet_bounds [of y x] sextet_bounds(2) [of 0 y] by simp_all
  have "x div 4 * 4 + (x mod 4 * 16 + y div 16) div 16 = x"
    using byte_first [OF xy(2)] .
  then have a: "char_of (x div 4 * 4 + (x mod 4 * 16 + y div 16) div 16) = a"
    by (simp add: x_def)
  have "(x mod 4 * 16 + y div 16) mod 16 * 16 + (y mod 16 * 4) div 4 = y"
    using byte_second [of y 0 x] xy by simp
  then have b: "char_of ((x mod 4 * 16 + y div 16) mod 16 * 16 + (y mod 16 * 4) div 4) = b"
    by (simp add: y_def)
  show ?case
    using a b by (simp add: Let_def a2b_loop_data a2b_loop_pad s del: a2b_loop.simps(2) flip: x_def y_def)
next
  case (4 a b c rest)
  define x :: nat where "x = of_char a"
  define y :: nat where "y = of_char b"
  define z :: nat where "z = of_char c"
  have xy: "x < 256" "y < 256" "z < 256" by (simp_all add: x_def y_def z_def)
  have s: "x div 4 < 64" "x mod 4 * 16 + y div 16 < 64" "y mod 16 * 4 + z div 64 < 64"
    "z mod 64 < 64"
    using xy sextet_bounds(1) [of y x] sextet_bounds(2) [of z y] by simp_all
  have "x div 4 * 4 + (x mod 4 * 16 + y div 16) div 16 = x"
    using byte_first [OF xy(2)] .
  then have a: "char_of (x div 4 * 4 + (x mod 4 * 16 + y div 16) div 16) = a"
    by (simp add: x_def)
  have "(x mod 4 * 16 + y div 16) mod 16 * 16 + (y mod 16 * 4 + z div 64) div 4 = y"
    using byte_second [of y z x] xy by simp
  then have b: "char_of ((x mod 4 * 16 + y div 16) mod 16 * 16 + (y mod 16 * 4 + z div 64) div 4) = b"
    by (simp add: y_def)
  have "(y mod 16 * 4 + z div 64) mod 4 * 64 + z mod 64 = z"
    using byte_third [of z y] xy by simp
  then have c: "char_of ((y mod 16 * 4 + z div 64) mod 4 * 64 + z mod 64) = c"
    by (simp add: z_def)
  show ?case
    using a b c "4.IH" by (simp add: Let_def a2b_loop_data a2b_loop_pad s del: a2b_loop.simps(2) flip: x_def y_def z_def)
qed

lemma is_ascii_b64encode: "is_ascii (b64encode bs)"
  by (induction bs rule: b64encode.induct) (simp_all add: is_ascii_def Let_def b64_char_ascii)

lemma b64decode_b64encode: "b64decode (JStr (b64encode bs)) = Inr bs"
  using a2b_loop_b64encode [of bs 0 "[]"] by (simp add: is_ascii_b64encode)

section \<open>The envelope's optional fields\<close>

lemma esb_data_eq:
  "esb_data payload api_code ok msg errs verrs =
     (''esbBody'', payload)
       # (if truthy api_code then [(''apiCode'', api_code)] else [])
       @ (if ok \<noteq> JNull then [(''success'', ok)] else [])
       @ (if truthy msg then [(''message'', msg)] else [])
       @ (if truthy errs then [(''errors'', errs)] else [])
       @ (if truthy verrs then [(''validationErrors'', verrs)] else [])"
  by (simp add: esb_data_def)

lemma esb_data_lookup:
  "map_of (esb_data p a s m e v) ''esbBody'' = Some p"
  "map_of (esb_data p a s m e v) ''apiCode'' = (if truthy a then Some a else None)"
  "map_of (esb_data p a s m e v) ''success'' = (if s \<noteq> JNull then Some s else None)"
  "map_of (esb_data p a s m e v) ''message'' = (if truthy m then Some m else None)"
  "map_of (esb_data p a s m e v) ''errors'' = (if truthy e then Some e else None)"
  "map_of (esb_data p a s m e v) ''validationErrors'' = (if truthy v then Some v else None)"
  by (simp_all add: esb_data_eq)

lemma esb_data_keys:
  "map fst (esb_data p a s m e v) =
     filter (\<lambda>k. map_of (esb_data p a s m e v) k \<noteq> None) field_order"
  unfolding field_order_def filter.simps esb_data_lookup
  by (simp add: esb_data_eq)

lemma esb_data_distinct: "distinct (map fst (esb_data p a s m e v))"
  by (simp add: esb_data_eq)

lemma build_esb_payload_Inr:
  "build_esb_payload lib self nonce p a s m e v = Inr env \<Longrightarrow>
     \<exists>sg. env = JObj [(''data'', JObj (esb_data p a s m e v)), (''signature'', JStr sg)]"
  by (auto simp: build_esb_payload_def Let_def split: sum.splits)

text \<open>
  Claim C6, as the code has it.  In the \<^verbatim>\<open>data\<close> of every envelope that
  \<^verbatim>\<open>build_esb_payload\<close> returns, \<^verbatim>\<open>esbBody\<close> is the payload; \<^verbatim>\<open>success\<close> is present
  exactly when the argument is not \<^verbatim>\<open>None\<close> (so an explicit \<^verbatim>\<open>False\<close> is included);
  \<^verbatim>\<open>apiCode\<close>, \<^verbatim>\<open>message\<close>, \<^verbatim>\<open>errors\<close> and \<^verbatim>\<open>validationErrors\<close> are present exactly when
  the argument is truthy (so an explicit empty string, empty list or zero is left out);
  a present field holds the argument, and there are no other fields.
\<close>

theorem build_esb_payload_optional_fields:
  assumes "build_esb_payload lib self nonce payload api_code ok msg errs verrs = Inr env"
  shows "\<exists>data sg. env = JObj [(''data'', JObj data), (''signature'', JStr sg)]
           \<and> map_of data ''esbBody'' = Some payload
           \<and> map_of data ''apiCode'' = (if truthy api_code then Some api_code else None)
           \<and> map_of data ''success'' = (if ok \<noteq> JNull then Some ok else None)
           \<and> map_of data ''message'' = (if truthy msg then Some msg else None)
           \<and> map_of data ''errors'' = (if truthy errs then Some errs else None)
           \<and> map_of data ''validationErrors'' =
                (if truthy verrs then Some verrs else None)
           \<and> set (map fst data) \<subseteq> set field_order"
proof -
  let ?d = "esb_data payload api_code ok msg errs verrs"
  from build_esb_payload_Inr [OF assms] obtain sg
    where env: "env = JObj [(''data'', JObj ?d), (''signature'', JStr sg)]" by blast
  have "set (map fst ?d) \<subseteq> set field_order"
    by (subst esb_data_keys) auto
  with env show ?thesis
    by (intro exI [of _ ?d] exI [of _ sg]) (simp only: esb_data_lookup simp_thms)
qed

theorem build_esb_payload_optional_fields_witness:
  "build_esb_payload fixture_ecdsa fixture_govesb 7 (JObj [(''a'', JInt 1)]) (JStr ''CODE1'')
     (JBool False) (JStr ''ok'') (JList []) JNull
   = Inr (JObj [(''data'', JObj [(''esbBody'', JObj [(''a'', JInt 1)]), (''apiCode'', JStr ''CODE1''),
                                 (''success'', JBool False), (''message'', JStr ''ok'')]),
               (''signature'', JStr ''B2t7ImVzYkJvZHkiOnsiYSI6MX0sImFwaUNvZGUiOiJDT0RFMSIsInN1Y2Nlc3MiOmZhbHNlLCJtZXNzYWdlIjoib2sifQ=='')])
   \<and> (\<exists>data sg. JObj [(''data'', JObj [(''esbBody'', JObj [(''a'', JInt 1)]), (''apiCode'', JStr ''CODE1''),
                                 (''success'', JBool False), (''message'', JStr ''ok'')]),
               (''signature'', JStr ''B2t7ImVzYkJvZHkiOnsiYSI6MX0sImFwaUNvZGUiOiJDT0RFMSIsInN1Y2Nlc3MiOmZhbHNlLCJtZXNzYWdlIjoib2sifQ=='')]
           = JObj [(''data'', JObj data), (''signature'', JStr sg)]
         \<and> map_of data ''success'' = Some (JBool False)
         \<and> map_of data ''errors'' = None)"
proof -
  have b: "build_esb_payload fixture_ecdsa fixture_govesb 7 (JObj [(''a'', JInt 1)]) (JStr ''CODE1'')
     (JBool False) (JStr ''ok'') (JList []) JNull
   = Inr (JObj [(''data'', JObj [(''esbBody'', JObj [(''a'', JInt 1)]), (''apiCode'', JStr ''CODE1''),
                                 (''success'', JBool False), (''message'', JStr ''ok'')]),
               (''signature'', JStr ''B2t7ImVzYkJvZHkiOnsiYSI6MX0sImFwaUNvZGUiOiJDT0RFMSIsInN1Y2Nlc3MiOmZhbHNlLCJtZXNzYWdlIjoib2sifQ=='')])"
    by code_simp
  from build_esb_payload_optional_fields [OF b] show ?thesis
    using b by auto
qed

text \<open>An explicitly supplied empty \<^verbatim>\<open>message\<close> and empty \<^verbatim>\<open>errors\<close> list are not
  \<^verbatim>\<open>None\<close>, and neither appears in the envelope.\<close>

theorem explicit_empty_message_omitted:
  "build_esb_payload fixture_ecdsa fixture_govesb 0 (JObj []) JNull JNull (JStr '''') (JList []) JNull
   = Inr (JObj [(''data'', JObj [(''esbBody'', JObj [])]),
               (''signature'', JStr ''AGt7ImVzYkJvZHkiOnt9fQ=='')])
   \<and> JStr '''' \<noteq> JNull \<and> JList [] \<noteq> JNull"
  by code_simp

section \<open>The canonical text of an envelope\<close>

lemma assoc_list_eqI:
  "distinct (map fst xs) \<Longrightarrow> map fst xs = map fst ys \<Longrightarrow> map_of xs = map_of ys \<Longrightarrow> xs = ys"
proof (induction xs arbitrary: ys)
  case Nil
  then show ?case by simp
next
  case (Cons x xs)
  then obtain y ys' where ys: "ys = y # ys'" by (cases ys) auto
  obtain k v where x: "x = (k, v)" by (cases x)
  obtain k' v' where y: "y = (k', v')" by (cases y)
  from Cons.prems(2) ys x y have k: "k' = k" and keys: "map fst xs = map fst ys'" by auto
  have "map_of (x # xs) k = map_of ys k" using fun_cong [OF Cons.prems(3), of k] .
  with ys x y k have v: "v' = v" by simp
  have notin: "k \<notin> fst ` set xs" "k \<notin> fst ` set ys'"
    using Cons.prems(1) x keys by (auto simp flip: set_map)
  have "map_of xs = map_of ys'"
  proof
    fix j
    show "map_of xs j = map_of ys' j"
    proof (cases "j = k")
      case True
      have "map_of xs k = None" "map_of ys' k = None"
        using notin by (simp_all add: map_of_eq_None_iff)
      with True show ?thesis by simp
    next
      case False
      have "map_of (x # xs) j = map_of ys j" using fun_cong [OF Cons.prems(3), of j] .
      then show ?thesis using False ys x y k by simp
    qed
  qed
  with Cons.IH [of ys'] Cons.prems(1) keys have "xs = ys'" by simp
  then show ?case using ys x y k v by simp
qed

lemma esb_data_determined:
  assumes "map_of (esb_data p a s m e v) = map_of (esb_data p' a' s' m' e' v')"
  shows "esb_data p a s m e v = esb_data p' a' s' m' e' v'"
proof (rule assoc_list_eqI)
  show "distinct (map fst (esb_data p a s m e v))" by (rule esb_data_distinct)
  show "map fst (esb_data p a s m e v) = map fst (esb_data p' a' s' m' e' v')"
    by (simp only: esb_data_keys assms)
  show "map_of (esb_data p a s m e v) = map_of (esb_data p' a' s' m' e' v')" by (rule assms)
qed

lemma build_esb_payload_signs_canonical_text:
  assumes "build_esb_payload lib self nonce p a s m e v = Inr env"
  shows "\<exists>sk. private_key self = Some sk
           \<and> trim_payload (JObj (esb_data p a s m e v)) = Inr (dumps (JObj (esb_data p a s m e v)))
           \<and> env = JObj [(''data'', JObj (esb_data p a s m e v)),
                         (''signature'',
                          JStr (b64encode (ec_sign lib sk nonce
                                  (utf8_encode (dumps (JObj (esb_data p a s m e v)))))))]"
  using assms
  by (auto simp: build_esb_payload_def sign_payload_def trim_payload_def Let_def
        split: option.splits if_splits)

text \<open>
  Claim C10.  The keys of the \<^verbatim>\<open>data\<close> that \<^verbatim>\<open>build_esb_payload\<close> signs are the present ones
  among \<^verbatim>\<open>esbBody\<close>, \<^verbatim>\<open>apiCode\<close>, \<^verbatim>\<open>success\<close>, \<^verbatim>\<open>message\<close>, \<^verbatim>\<open>errors\<close>, \<^verbatim>\<open>validationErrors\<close>, in that
  order; its canonical text is the fields as \<^verbatim>\<open>"key":value\<close>, joined by commas between
  braces, with nothing else in between; so two envelopes with the same present fields and
  values have the same \<^verbatim>\<open>data\<close> and the same canonical text.  The signature of an
  envelope is made over the UTF-8 bytes of that text.
\<close>

theorem canonical_field_order:
  assumes "map_of (esb_data p a s m e v) = map_of (esb_data p' a' s' m' e' v')"
  shows "map fst (esb_data p a s m e v) =
           filter (\<lambda>k. map_of (esb_data p a s m e v) k \<noteq> None) field_order
         \<and> trim_payload (JObj (esb_data p a s m e v)) =
             (if serializable (JObj (esb_data p a s m e v))
              then Inr (''{'' @ join '',''
                         (map (\<lambda>kv. encode_basestring_ascii (fst kv) @ '':'' @ dumps (snd kv))
                            (esb_data p a s m e v)) @ ''}'')
              else Inl TypeError)
         \<and> trim_payload (JObj (esb_data p a s m e v)) =
             trim_payload (JObj (esb_data p' a' s' m' e' v'))
         \<and> (\<forall>env. build_esb_payload lib self nonce p a s m e v = Inr env \<longrightarrow>
               (\<exists>sk. private_key self = Some sk
                  \<and> trim_payload (JObj (esb_data p a s m e v)) =
                        Inr (dumps (JObj (esb_data p a s m e v)))
                  \<and> env = JObj [(''data'', JObj (esb_data p a s m e v)),
                        (''signature'',
                         JStr (b64encode (ec_sign lib sk nonce
                                 (utf8_encode (dumps (JObj (esb_data p a s m e v)))))))]))"
proof -
  have same: "esb_data p a s m e v = esb_data p' a' s' m' e' v'"
    by (rule esb_data_determined [OF assms])
  have order: "map fst (esb_data p a s m e v) =
      filter (\<lambda>k. map_of (esb_data p a s m e v) k \<noteq> None) field_order"
    by (rule esb_data_keys)
  have shape: "trim_payload (JObj (esb_data p a s m e v)) =
      (if serializable (JObj (esb_data p a s m e v))
       then Inr (''{'' @ join '',''
                  (map (\<lambda>kv. encode_basestring_ascii (fst kv) @ '':'' @ dumps (snd kv))
                     (esb_data p a s m e v)) @ ''}'')
       else Inl TypeError)"
    by (simp only: trim_payload_def dumps.simps)
  have bytes: "trim_payload (JObj (esb_data p a s m e v)) =
      trim_payload (JObj (esb_data p' a' s' m' e' v'))"
    by (simp only: same)
  have signed: "\<forall>env. build_esb_payload lib self nonce p a s m e v = Inr env \<longrightarrow>
      (\<exists>sk. private_key self = Some sk
         \<and> trim_payload (JObj (esb_data p a s m e v)) =
               Inr (dumps (JObj (esb_data p a s m e v)))
         \<and> env = JObj [(''data'', JObj (esb_data p a s m e v)),
               (''signature'',
                JStr (b64encode (ec_sign lib sk nonce
                        (utf8_encode (dumps (JObj (esb_data p a s m e v)))))))])"
    using build_esb_payload_signs_canonical_text by blast
  show ?thesis by (rule conjI [OF order conjI [OF shape conjI [OF bytes signed]]])
qed

theorem canonical_field_order_witness:
  "map_of (esb_data (JInt 1) JNull (JBool False) (JStr ''ok'') JNull JNull)
     = map_of (esb_data (JInt 1) (JStr []) (JBool False) (JStr ''ok'') (JList []) (JInt 0))
   \<and> map fst (esb_data (JInt 1) JNull (JBool False) (JStr ''ok'') JNull JNull)
       = [''esbBody'', ''success'', ''message'']
   \<and> trim_payload (JObj (esb_data (JInt 1) (JStr []) (JBool False) (JStr ''ok'') (JList []) (JInt 0)))
       = Inr (''{'' @ [CHR 0x22] @ ''esbBody'' @ [CHR 0x22] @ '':1,'' @ [CHR 0x22] @ ''success''
               @ [CHR 0x22] @ '':false,'' @ [CHR 0x22] @ ''message'' @ [CHR 0x22] @ '':''
               @ [CHR 0x22] @ ''ok'' @ [CHR 0x22] @ ''}'')"
proof -
  have h: "map_of (esb_data (JInt 1) JNull (JBool False) (JStr ''ok'') JNull JNull)
     = map_of (esb_data (JInt 1) (JStr []) (JBool False) (JStr ''ok'') (JList []) (JInt 0))"
    by (simp add: esb_data_eq)
  have t: "trim_payload (JObj (esb_data (JInt 1) JNull (JBool False) (JStr ''ok'') JNull JNull))
       = Inr (''{'' @ [CHR 0x22] @ ''esbBody'' @ [CHR 0x22] @ '':1,'' @ [CHR 0x22] @ ''success''
               @ [CHR 0x22] @ '':false,'' @ [CHR 0x22] @ ''message'' @ [CHR 0x22] @ '':''
               @ [CHR 0x22] @ ''ok'' @ [CHR 0x22] @ ''}'')"
    by code_simp
  have k: "filter (\<lambda>k. map_of (esb_data (JInt 1) JNull (JBool False) (JStr ''ok'') JNull JNull) k \<noteq> None)
             field_order = [''esbBody'', ''success'', ''message'']"
    by (simp add: esb_data_lookup field_order_def)
  note c = canonical_field_order [OF h]
  have r1: "map fst (esb_data (JInt 1) JNull (JBool False) (JStr ''ok'') JNull JNull)
       = [''esbBody'', ''success'', ''message'']"
    using conjunct1 [OF c] k by (rule trans)
  have r3: "trim_payload (JObj (esb_data (JInt 1) (JStr []) (JBool False) (JStr ''ok'') (JList []) (JInt 0)))
       = Inr (''{'' @ [CHR 0x22] @ ''esbBody'' @ [CHR 0x22] @ '':1,'' @ [CHR 0x22] @ ''success''
               @ [CHR 0x22] @ '':false,'' @ [CHR 0x22] @ ''message'' @ [CHR 0x22] @ '':''
               @ [CHR 0x22] @ ''ok'' @ [CHR 0x22] @ ''}'')"
    using conjunct1 [OF conjunct2 [OF conjunct2 [OF c]], symmetric] t by (rule trans)
  show ?thesis by (rule conjI [OF h conjI [OF r1 r3]])
qed

section \<open>Signing, then verifying\<close>

text \<open>
  Claim C8.  With a private key and the public key that matches it (the library verifies
  every signature it makes with the one against the other, on the same message), and a payload that
  \<^verbatim>\<open>json.dumps\<close> can serialise, \<^verbatim>\<open>sign_payload\<close> returns a signature and
  \<^verbatim>\<open>verify_signature\<close> of that signature and the same payload returns \<^verbatim>\<open>True\<close>.
\<close>

theorem sign_verify_round_trip:
  assumes "private_key self = Some sk" and "public_key self = Some pk"
    and "\<forall>nonce msg. ec_verify lib pk (ec_sign lib sk nonce msg) msg"
    and "serializable payload"
  shows "\<exists>sg. sign_payload lib self nonce payload = Inr sg
           \<and> verify_signature lib self (JStr sg) payload = Inr True"
  using assms
  by (simp add: sign_payload_def verify_signature_def trim_payload_def b64decode_b64encode
        del: b64decode.simps)

theorem sign_verify_round_trip_witness:
  "private_key fixture_govesb = Some ''k'' \<and> public_key fixture_govesb = Some ''k''
   \<and> (\<forall>nonce msg. ec_verify fixture_ecdsa ''k'' (ec_sign fixture_ecdsa ''k'' nonce msg) msg)
   \<and> serializable (JObj [(''a'', JList [JInt 1, JStr ''x''])])
   \<and> (\<exists>sg. sign_payload fixture_ecdsa fixture_govesb 5 (JObj [(''a'', JList [JInt 1, JStr ''x''])]) = Inr sg
           \<and> verify_signature fixture_ecdsa fixture_govesb (JStr sg) (JObj [(''a'', JList [JInt 1, JStr ''x''])]) = Inr True)"
proof -
  have a: "private_key fixture_govesb = Some ''k''" "public_key fixture_govesb = Some ''k''"
    by (simp_all add: fixture_govesb_def new_govesb_def)
  have b: "\<forall>nonce msg. ec_verify fixture_ecdsa ''k'' (ec_sign fixture_ecdsa ''k'' nonce msg) msg"
    by (simp add: fixture_ecdsa_def)
  have c: "serializable (JObj [(''a'', JList [JInt 1, JStr ''x''])])" by simp
  from sign_verify_round_trip [OF a b c, of 5] a b c show ?thesis by simp
qed

section \<open>What \<^verbatim>\<open>verify_signature\<close> and \<^verbatim>\<open>aconsume\<close> do with a malformed signature\<close>

lemma verify_signature_undecodable:
  "public_key self = Some pk \<Longrightarrow> b64decode sg = Inl e \<Longrightarrow>
     verify_signature lib self sg payload = Inl e"
  by (simp add: verify_signature_def)

lemma verify_signature_Inr_iff:
  "verify_signature lib self sg payload = Inr b \<longleftrightarrow>
     (\<exists>pk raw. public_key self = Some pk \<and> b64decode sg = Inr raw \<and> serializable payload
        \<and> b = ec_verify lib pk raw (utf8_encode (dumps payload)))"
  by (auto simp: verify_signature_def trim_payload_def split: option.splits sum.splits)

text \<open>
  Claim C5.  \<^verbatim>\<open>verify_signature\<close> raises on a signature string that is not decodable Base64:
  the one character \<^verbatim>\<open>a\<close> (\<^verbatim>\<open>binascii.Error\<close>), and a string with a non-ASCII character
  (\<^verbatim>\<open>ValueError\<close>); it does not return \<^verbatim>\<open>False\<close>.
\<close>

theorem verify_signature_raises_on_malformed:
  "verify_signature fixture_ecdsa fixture_govesb (JStr ''a'') (JObj []) = Inl BinasciiError
   \<and> verify_signature fixture_ecdsa fixture_govesb (JStr [CHR 0xE9]) (JObj []) = Inl ValueError"
  by code_simp

lemma aconsume_signature_gate:
  assumes "verify_signature lib self (dict_get req_body ''signature'' JNull)
             (dict_get req_body ''data'' (JObj [])) = Inr False"
    and "private_key self = Some sk"
  shows "\<exists>sg. aconsume lib self nonce req_body process_feedback =
           (Inr (JObj [(''data'', JObj [(''esbBody'', JObj []), (''success'', JBool False),
                                       (''message'', JStr ''Signature verification failed!'')]),
                      (''signature'', JStr sg)]),
            [LogCall None
               (JObj [(''data'', JObj [(''esbBody'', JObj []), (''success'', JBool False),
                                       (''message'', JStr ''Signature verification failed!'')]),
                      (''signature'', JStr sg)])
               (dict_get req_body ''data'' (JObj []))])"
  using assms
  by (simp add: aconsume_def aconsume_ack_def build_esb_payload_def sign_payload_def
        trim_payload_def esb_data_eq Let_def)

lemma aconsume_verify_raises:
  "verify_signature lib self (dict_get req_body ''signature'' JNull)
     (dict_get req_body ''data'' (JObj [])) = Inl e \<Longrightarrow>
   aconsume lib self nonce req_body process_feedback = (Inl e, [])"
  by (simp add: aconsume_def Let_def)

lemma aconsume_ack_events:
  "set (snd (aconsume_ack lib self nonce data ok msg body evs)) \<subseteq>
     set evs \<union> {ev. \<exists>p. ev = LogCall None p data}"
  by (auto simp: aconsume_ack_def split: sum.splits)

lemma aconsume_process_feedback_needs_valid_signature:
  assumes "ProcessFeedback body \<in> set (snd (aconsume lib self nonce req_body process_feedback))"
  shows "verify_signature lib self (dict_get req_body ''signature'' JNull)
           (dict_get req_body ''data'' (JObj [])) = Inr True"
proof (cases "verify_signature lib self (dict_get req_body ''signature'' JNull)
                (dict_get req_body ''data'' (JObj []))")
  case (Inl e)
  with assms show ?thesis by (simp add: aconsume_def Let_def)
next
  case (Inr ok)
  show ?thesis
  proof (cases ok)
    case True
    with Inr show ?thesis by simp
  next
    case False
    with Inr assms aconsume_ack_events [of lib self nonce "dict_get req_body ''data'' (JObj [])"
        "JBool False" "JStr ''Signature verification failed!''" "JObj []" "[]"]
    show ?thesis by (auto simp: aconsume_def Let_def)
  qed
qed

text \<open>
  Claim C4.  An inbound envelope whose signature is the string \<^verbatim>\<open>a\<close>, or that has no
  signature at all, does not verify, and \<^verbatim>\<open>aconsume\<close> raises (\<^verbatim>\<open>binascii.Error\<close>,
  \<^verbatim>\<open>TypeError\<close>) instead of returning the failure acknowledgment; \<^verbatim>\<open>process_feedback\<close> is
  not called.
\<close>

theorem aconsume_raises_on_malformed_signature:
  "aconsume fixture_ecdsa fixture_govesb 3
     [(''data'', JObj [(''esbBody'', JInt 1)]), (''signature'', JStr ''a'')]
     (\<lambda>body. Inr (JBool True, JStr ''ok'', body)) = (Inl BinasciiError, [])
   \<and> aconsume fixture_ecdsa fixture_govesb 3
     [(''data'', JObj [(''esbBody'', JInt 1)])]
     (\<lambda>body. Inr (JBool True, JStr ''ok'', body)) = (Inl TypeError, [])"
  by code_simp

section \<open>\<^verbatim>\<open>consume\<close>: results and exceptions\<close>

lemma build_esb_payload_nonce:
  "build_esb_payload lib self n p a s m e v = Inr env \<Longrightarrow>
     \<exists>env'. build_esb_payload lib self n' p a s m e v = Inr env'"
  by (auto simp: build_esb_payload_def sign_payload_def Let_def split: option.splits sum.splits)

lemma consume_transport_failure:
  "bus_reply env = TransportFailure \<Longrightarrow>
     fst (consume lib validate self env payload api_code) = Inl UnboundLocalError"
  by (simp add: consume_def consume_except_def Let_def split: sum.splits)

lemma consume_unbuildable:
  "build_esb_payload lib self (nonce_post env) payload (py_of_opt api_code)
       JNull JNull JNull JNull = Inl e \<Longrightarrow>
     consume lib validate self env payload api_code = (Inl UnboundLocalError, [])"
  by (simp add: consume_def consume_except_def)

lemma consume_responded:
  assumes "build_esb_payload lib self (nonce_post env) payload (py_of_opt api_code)
             JNull JNull JNull JNull = Inr request"
    and "bus_reply env = Responded r"
  shows "\<exists>v. fst (consume lib validate self env payload api_code) = Inr v"
  using assms
  by (cases "consume_response lib validate self env payload api_code r")
     (auto simp: consume_def consume_except_def Let_def split: sum.splits)

lemma consume_bad_response:
  assumes "build_esb_payload lib self (nonce_post env) payload (py_of_opt api_code)
             JNull JNull JNull JNull = Inr request"
    and "bus_reply env = Responded r"
    and "\<not> is_success r \<or> json_body r = None"
  shows "fst (consume lib validate self env payload api_code) =
           Inr \<lparr>success = False, requestId = Some (fresh_uuid env), esbBody = JObj [],
                message = Some (''Failed to consume from apiCode: '' @ py_format_opt api_code),
                errors = [], validationErrors = []\<rparr>"
proof -
  have "\<exists>e. consume_response lib validate self env payload api_code r = (Inl e, [])"
  proof (cases "is_success r")
    case True
    with assms(3) show ?thesis by (simp add: consume_response_def)
  next
    case False
    then show ?thesis by (simp add: consume_response_def)
  qed
  then obtain e where
    "consume_response lib validate self env payload api_code r = (Inl e, [])" by blast
  with assms(1,2) show ?thesis by (simp add: consume_def consume_except_def)
qed

text \<open>
  Claim C1.  When the POST to the bus fails in transport, \<^verbatim>\<open>consume\<close> raises
  \<^verbatim>\<open>UnboundLocalError\<close> from its handler instead of returning a failure result.
\<close>

theorem consume_raises_on_transport_failure:
  "fst (consume fixture_ecdsa fixture_validate fixture_govesb
          \<lparr>bus_reply = TransportFailure, nonce_post = 1, nonce_log = 2, fresh_uuid = 9\<rparr>
          (JObj [(''a'', JInt 1)]) (Some ''CODE1'')) = Inl UnboundLocalError"
  by code_simp

lemma build_esb_payload_token_state:
  "build_esb_payload lib (self\<lparr>token_expiry := x, initialized := b\<rparr>) n p a s m e v =
     build_esb_payload lib self n p a s m e v"
  by (simp add: build_esb_payload_def sign_payload_def)

lemma verify_signature_token_state:
  "verify_signature lib (self\<lparr>token_expiry := x, initialized := b\<rparr>) sg d =
     verify_signature lib self sg d"
  by (simp add: verify_signature_def)

lemma consume_response_token_state:
  "consume_response lib validate (self\<lparr>token_expiry := x, initialized := b\<rparr>) env payload
       api_code r =
     consume_response lib validate self env payload api_code r"
  unfolding consume_response_def build_esb_payload_token_state verify_signature_token_state ..

lemma post_fields_token_state:
  "engine_url (self\<lparr>token_expiry := x, initialized := b\<rparr>) = engine_url self"
  "access_token (self\<lparr>token_expiry := x, initialized := b\<rparr>) = access_token self"
  by simp_all

lemma consume_token_state:
  "consume lib validate (self\<lparr>token_expiry := x, initialized := b\<rparr>) env payload api_code =
     consume lib validate self env payload api_code"
  unfolding consume_def consume_response_token_state build_esb_payload_token_state
    post_fields_token_state ..

lemma consume_first_event:
  assumes "build_esb_payload lib self (nonce_post env) payload (py_of_opt api_code)
             JNull JNull JNull JNull = Inr request"
  shows "\<exists>evs. snd (consume lib validate self env payload api_code) =
           BusPost (engine_url self) (access_token self) request # evs"
proof (cases "bus_reply env")
  case TransportFailure
  with assms show ?thesis by (simp add: consume_def consume_except_def)
next
  case (Responded r)
  with assms show ?thesis
    by (cases "consume_response lib validate self env payload api_code r")
       (auto simp: consume_def consume_except_def Let_def split: sum.splits)
qed

lemma consume_response_result:
  "consume_response lib validate self env payload api_code r = (Inr v, evs) \<Longrightarrow>
     \<exists>js. validate js = Inr v"
  by (auto simp: consume_response_def Let_def split: if_splits option.splits sum.splits)

lemma consume_result:
  assumes "fst (consume lib validate self env payload api_code) = Inr v"
  shows "(\<exists>js. validate js = Inr v)
         \<or> (success v = False \<and> esbBody v = JObj []
             \<and> message v = Some (''Failed to consume from apiCode: '' @ py_format_opt api_code))"
proof (cases "build_esb_payload lib self (nonce_post env) payload (py_of_opt api_code)
                JNull JNull JNull JNull")
  case (Inl e)
  with assms show ?thesis by (simp add: consume_def consume_except_def)
next
  case (Inr request)
  show ?thesis
  proof (cases "bus_reply env")
    case TransportFailure
    with Inr assms show ?thesis by (simp add: consume_def consume_except_def)
  next
    case (Responded r)
    obtain res evs where cr: "consume_response lib validate self env payload api_code r = (res, evs)"
      by (cases "consume_response lib validate self env payload api_code r")
    show ?thesis
    proof (cases res)
      case (Inl e)
      with Inr Responded cr assms show ?thesis
        by (auto simp: consume_def consume_except_def)
    next
      case r': (Inr v')
      with Inr Responded cr assms have "v' = v" by (simp add: consume_def)
      with r' cr consume_response_result show ?thesis by blast
    qed
  qed
qed

text \<open>
  Claim C3, as the code has it.  \<^verbatim>\<open>consume\<close> makes no token check (the check is in
  \<^verbatim>\<open>get_instance\<close>): whenever the envelope can be built, its first act is the POST to the
  bus with the stored \<^verbatim>\<open>access_token\<close>, whatever that is; what it does is the same for
  every \<^verbatim>\<open>token_expiry\<close> and \<^verbatim>\<open>initialized\<close>; and a result that is not the bus's own
  \<^verbatim>\<open>data\<close> is the failure result with the message
  \<^verbatim>\<open>Failed to consume from apiCode: <api_code>\<close> and an empty \<^verbatim>\<open>esbBody\<close>.
\<close>

theorem consume_posts_without_token_check:
  assumes "build_esb_payload lib self (nonce_post env) payload (py_of_opt api_code)
             JNull JNull JNull JNull = Inr request"
  shows "(\<exists>evs. snd (consume lib validate self env payload api_code) =
            BusPost (engine_url self) (access_token self) request # evs)
         \<and> consume lib validate (self\<lparr>token_expiry := x, initialized := b\<rparr>) env payload api_code
             = consume lib validate self env payload api_code
         \<and> (\<forall>v. fst (consume lib validate self env payload api_code) = Inr v \<longrightarrow>
               (\<exists>js. validate js = Inr v)
               \<or> (success v = False \<and> esbBody v = JObj []
                   \<and> message v =
                        Some (''Failed to consume from apiCode: '' @ py_format_opt api_code)))"
  using consume_first_event [OF assms] consume_token_state consume_result by blast

theorem consume_posts_without_token_check_witness:
  "build_esb_payload fixture_ecdsa fixture_govesb
       (nonce_post \<lparr>bus_reply = TransportFailure, nonce_post = 1, nonce_log = 2, fresh_uuid = 9\<rparr>)
       (JObj [(''a'', JInt 1)]) (py_of_opt (Some ''CODE1'')) JNull JNull JNull JNull
     = Inr (JObj [(''data'', JObj [(''esbBody'', JObj [(''a'', JInt 1)]), (''apiCode'', JStr ''CODE1'')]),
                 (''signature'', JStr ''AWt7ImVzYkJvZHkiOnsiYSI6MX0sImFwaUNvZGUiOiJDT0RFMSJ9'')])
   \<and> (\<exists>evs. snd (consume fixture_ecdsa fixture_validate fixture_govesb
                  \<lparr>bus_reply = TransportFailure, nonce_post = 1, nonce_log = 2, fresh_uuid = 9\<rparr>
                  (JObj [(''a'', JInt 1)]) (Some ''CODE1''))
          = BusPost (engine_url fixture_govesb) (access_token fixture_govesb)
              (JObj [(''data'', JObj [(''esbBody'', JObj [(''a'', JInt 1)]), (''apiCode'', JStr ''CODE1'')]),
                     (''signature'', JStr ''AWt7ImVzYkJvZHkiOnsiYSI6MX0sImFwaUNvZGUiOiJDT0RFMSJ9'')])
            # evs)
   \<and> consume fixture_ecdsa fixture_validate
         (fixture_govesb\<lparr>token_expiry := Some 0, initialized := True\<rparr>)
         \<lparr>bus_reply = TransportFailure, nonce_post = 1, nonce_log = 2, fresh_uuid = 9\<rparr>
         (JObj [(''a'', JInt 1)]) (Some ''CODE1'')
       = consume fixture_ecdsa fixture_validate fixture_govesb
         \<lparr>bus_reply = TransportFailure, nonce_post = 1, nonce_log = 2, fresh_uuid = 9\<rparr>
         (JObj [(''a'', JInt 1)]) (Some ''CODE1'')"
proof -
  have b: "build_esb_payload fixture_ecdsa fixture_govesb
       (nonce_post \<lparr>bus_reply = TransportFailure, nonce_post = 1, nonce_log = 2, fresh_uuid = 9\<rparr>)
       (JObj [(''a'', JInt 1)]) (py_of_opt (Some ''CODE1'')) JNull JNull JNull JNull
     = Inr (JObj [(''data'', JObj [(''esbBody'', JObj [(''a'', JInt 1)]), (''apiCode'', JStr ''CODE1'')]),
                 (''signature'', JStr ''AWt7ImVzYkJvZHkiOnsiYSI6MX0sImFwaUNvZGUiOiJDT0RFMSJ9'')])"
    by code_simp
  note c = consume_posts_without_token_check [OF b, where validate = fixture_validate and x = "Some 0" and b = True]
  show ?thesis
    by (rule conjI [OF b conjI [OF conjunct1 [OF c] conjunct1 [OF conjunct2 [OF c]]]])
qed

text \<open>With no token stored (\<^verbatim>\<open>access_token\<close> and \<^verbatim>\<open>token_expiry\<close> are \<^verbatim>\<open>None\<close>),
  \<^verbatim>\<open>consume\<close> posts to the bus all the same, and on a 500 answer returns the message
  about the \<^verbatim>\<open>apiCode\<close>, not \<^verbatim>\<open>token unavailable\<close>.\<close>

theorem consume_without_token_posts:
  "access_token fixture_govesb = JNull \<and> token_expiry fixture_govesb = None
   \<and> consume fixture_ecdsa fixture_validate fixture_govesb
        \<lparr>bus_reply = Responded \<lparr>status_code = 500, json_body = None\<rparr>,
         nonce_post = 1, nonce_log = 2, fresh_uuid = 9\<rparr>
        (JObj [(''a'', JInt 1)]) (Some ''CODE1'')
     = (Inr \<lparr>success = False, requestId = Some 9, esbBody = JObj [],
              message = Some ''Failed to consume from apiCode: CODE1'',
              errors = [], validationErrors = []\<rparr>,
        [BusPost (Some ''https://esb'') JNull
           (JObj [(''data'', JObj [(''esbBody'', JObj [(''a'', JInt 1)]), (''apiCode'', JStr ''CODE1'')]),
                  (''signature'', JStr ''AWt7ImVzYkJvZHkiOnsiYSI6MX0sImFwaUNvZGUiOiJDT0RFMSJ9'')]),
         LogException HTTPStatusError])"
  by code_simp

text \<open>
  Claim C9, as the code has it.  When the bus answers 2xx with a JSON object that has
  \<^verbatim>\<open>signature\<close> and \<^verbatim>\<open>data\<close>, and the signature does not verify over the data, \<^verbatim>\<open>consume\<close>
  returns the failure result whose message is \<^verbatim>\<open>Failed to consume from apiCode: <api_code>\<close>;
  the text \<^verbatim>\<open>Signature verification failed!\<close> is the exception it logs last.
\<close>

theorem consume_signature_failure_result:
  assumes "build_esb_payload lib self (nonce_post env) payload (py_of_opt api_code)
             JNull JNull JNull JNull = Inr request"
    and "bus_reply env = Responded r" and "is_success r" and "json_body r = Some js"
    and "py_getitem js ''signature'' = Inr sg" and "py_getitem js ''data'' = Inr d"
    and "verify_signature lib self sg d = Inr False"
  shows "fst (consume lib validate self env payload api_code) =
           Inr \<lparr>success = False, requestId = Some (fresh_uuid env), esbBody = JObj [],
                message = Some (''Failed to consume from apiCode: '' @ py_format_opt api_code),
                errors = [], validationErrors = []\<rparr>
         \<and> last (snd (consume lib validate self env payload api_code)) =
             LogException (Failure ''Signature verification failed!'')"
proof -
  from build_esb_payload_nonce [OF assms(1), of "nonce_log env"] obtain request'
    where b: "build_esb_payload lib self (nonce_log env) payload (py_of_opt api_code)
                JNull JNull JNull JNull = Inr request'" by blast
  have "consume_response lib validate self env payload api_code r =
          (Inl (Failure ''Signature verification failed!''), [LogCall api_code request' js])"
    using assms(3-7) b by (simp add: consume_response_def)
  with assms(1,2) show ?thesis
    by (simp add: consume_def consume_except_def)
qed

theorem consume_signature_failure_result_witness:
  "verify_signature fixture_ecdsa fixture_govesb (JStr ''AAAA'')
       (JObj [(''success'', JBool True), (''esbBody'', JObj [(''a'', JInt 1)])]) = Inr False
   \<and> fst (consume fixture_ecdsa fixture_validate fixture_govesb
          \<lparr>bus_reply = Responded \<lparr>status_code = 200, json_body = Some (JObj
               [(''data'', JObj [(''success'', JBool True), (''esbBody'', JObj [(''a'', JInt 1)])]),
                (''signature'', JStr ''AAAA'')])\<rparr>,
           nonce_post = 1, nonce_log = 2, fresh_uuid = 9\<rparr>
          (JObj [(''a'', JInt 1)]) (Some ''CODE1''))
       = Inr \<lparr>success = False, requestId = Some 9, esbBody = JObj [],
              message = Some ''Failed to consume from apiCode: CODE1'',
              errors = [], validationErrors = []\<rparr>
   \<and> last (snd (consume fixture_ecdsa fixture_validate fixture_govesb
          \<lparr>bus_reply = Responded \<lparr>status_code = 200, json_body = Some (JObj
               [(''data'', JObj [(''success'', JBool True), (''esbBody'', JObj [(''a'', JInt 1)])]),
                (''signature'', JStr ''AAAA'')])\<rparr>,
           nonce_post = 1, nonce_log = 2, fresh_uuid = 9\<rparr>
          (JObj [(''a'', JInt 1)]) (Some ''CODE1'')))
       = LogException (Failure ''Signature verification failed!'')"
proof -
  let ?js = "JObj [(''data'', JObj [(''success'', JBool True), (''esbBody'', JObj [(''a'', JInt 1)])]),
                   (''signature'', JStr ''AAAA'')]"
  let ?r = "\<lparr>status_code = 200, json_body = Some ?js\<rparr>"
  let ?env = "\<lparr>bus_reply = Responded ?r, nonce_post = 1, nonce_log = 2, fresh_uuid = 9\<rparr>"
  have b: "build_esb_payload fixture_ecdsa fixture_govesb (nonce_post ?env)
       (JObj [(''a'', JInt 1)]) (py_of_opt (Some ''CODE1'')) JNull JNull JNull JNull
     = Inr (JObj [(''data'', JObj [(''esbBody'', JObj [(''a'', JInt 1)]), (''apiCode'', JStr ''CODE1'')]),
                 (''signature'', JStr ''AWt7ImVzYkJvZHkiOnsiYSI6MX0sImFwaUNvZGUiOiJDT0RFMSJ9'')])"
    by code_simp
  have r: "bus_reply ?env = Responded ?r" by simp
  have s: "is_success ?r" by (simp add: is_success_def)
  have j: "json_body ?r = Some ?js" by simp
  have g1: "py_getitem ?js ''signature'' = Inr (JStr ''AAAA'')" by simp
  have g2: "py_getitem ?js ''data'' =
      Inr (JObj [(''success'', JBool True), (''esbBody'', JObj [(''a'', JInt 1)])])" by simp
  have v: "verify_signature fixture_ecdsa fixture_govesb (JStr ''AAAA'')
       (JObj [(''success'', JBool True), (''esbBody'', JObj [(''a'', JInt 1)])]) = Inr False"
    by code_simp
  note c = consume_signature_failure_result [OF b r s j g1 g2 v, of fixture_validate]
  have m: "''Failed to consume from apiCode: '' @ py_format_opt (Some ''CODE1'')
      = ''Failed to consume from apiCode: CODE1''"
    by (simp add: py_format_opt_def)
  have u: "fresh_uuid ?env = 9" by simp
  show ?thesis
    using v c unfolding m u by (intro conjI) simp_all
qed

text \<open>A 2xx answer whose signature does not verify: the message of the result is the
  one about the \<^verbatim>\<open>apiCode\<close>, not \<^verbatim>\<open>Signature verification failed!\<close>.\<close>

theorem consume_bad_signature_message:
  "verify_signature fixture_ecdsa fixture_govesb (JStr ''AAAA'')
       (JObj [(''success'', JBool True), (''esbBody'', JObj [(''a'', JInt 1)])]) = Inr False
   \<and> fst (consume fixture_ecdsa fixture_validate fixture_govesb
          \<lparr>bus_reply = Responded \<lparr>status_code = 200, json_body = Some (JObj
               [(''data'', JObj [(''success'', JBool True), (''esbBody'', JObj [(''a'', JInt 1)])]),
                (''signature'', JStr ''AAAA'')])\<rparr>,
           nonce_post = 1, nonce_log = 2, fresh_uuid = 9\<rparr>
          (JObj [(''a'', JInt 1)]) (Some ''CODE1''))
       = Inr \<lparr>success = False, requestId = Some 9, esbBody = JObj [],
              message = Some ''Failed to consume from apiCode: CODE1'',
              errors = [], validationErrors = []\<rparr>
   \<and> ''Failed to consume from apiCode: CODE1'' \<noteq> ''Signature verification failed!''"
  by code_simp

section \<open>Refreshing the token\<close>

lemma request_esb_token_success:
  assumes "is_success r" and "json_body r = Some data"
    and "py_getitem data ''access_token'' = Inr tok"
    and "py_getitem data ''expires_in'' = Inr x" and "py_number x = Some n"
  shows "request_esb_token self now (Responded r) =
           ((True, self\<lparr>access_token := tok, token_expiry := Some (now + n - 60)\<rparr>),
            [TokenPost (token_url self)])"
  using assms by (simp add: request_esb_token_def request_esb_token_finish_def)

lemma request_esb_token_no_token:
  assumes "outcome = TransportFailure
           \<or> (\<exists>r. outcome = Responded r \<and> (\<not> is_success r \<or> json_body r = None
                 \<or> (\<exists>data e. json_body r = Some data \<and> py_getitem data ''access_token'' = Inl e)))"
  shows "fst (request_esb_token self now outcome) = (False, self)"
  using assms
  by (auto simp: request_esb_token_def request_esb_token_finish_def token_failed_def)

lemma request_esb_token_expiry_kept:
  "fst (fst (request_esb_token self now outcome)) = False \<Longrightarrow>
     token_expiry (snd (fst (request_esb_token self now outcome))) = token_expiry self"
  by (auto simp: request_esb_token_def request_esb_token_finish_def token_failed_def Let_def
        split: http_outcome.splits option.splits sum.splits if_splits)

text \<open>
  Claim C7.  The token endpoint answers 200 with \<^verbatim>\<open>{"access_token": "NEW"}\<close> and no
  \<^verbatim>\<open>expires_in\<close> (or with an \<^verbatim>\<open>expires_in\<close> that is a string): the refresh fails, it returns
  \<^verbatim>\<open>False\<close>, and the stored \<^verbatim>\<open>access_token\<close> has become \<^verbatim>\<open>NEW\<close> while \<^verbatim>\<open>token_expiry\<close> is
  still the old one.
\<close>

theorem request_esb_token_partial_write:
  "request_esb_token (fixture_govesb\<lparr>access_token := JStr ''OLD'', token_expiry := Some 1000\<rparr>)
       2000 (Responded \<lparr>status_code = 200,
                         json_body = Some (JObj [(''access_token'', JStr ''NEW'')])\<rparr>)
     = ((False, fixture_govesb\<lparr>access_token := JStr ''NEW'', token_expiry := Some 1000\<rparr>),
        [TokenPost None, LogException KeyError])
   \<and> request_esb_token (fixture_govesb\<lparr>access_token := JStr ''OLD'', token_expiry := Some 1000\<rparr>)
       2000 (Responded \<lparr>status_code = 200,
                         json_body = Some (JObj [(''access_token'', JStr ''NEW''),
                                                 (''expires_in'', JStr ''3600'')])\<rparr>)
     = ((False, fixture_govesb\<lparr>access_token := JStr ''NEW'', token_expiry := Some 1000\<rparr>),
        [TokenPost None, LogException TypeError])"
  by (simp add: request_esb_token_def request_esb_token_finish_def token_failed_def
        is_success_def fixture_govesb_def new_govesb_def)

section \<open>Concurrent calls of \<^verbatim>\<open>get_instance\<close>\<close>

lemma expiry_check_expired:
  "token_expiry self = Some expiry \<Longrightarrow> expiry \<le> now \<Longrightarrow>
     expiry_check self now = (AwaitRefresh, [TokenPost (token_url self)])"
  by (simp add: expiry_check_def)

lemma expiry_check_valid:
  "token_expiry self = Some expiry \<Longrightarrow> now < expiry \<Longrightarrow>
     expiry_check self now = (Finished (Inr ()), [])"
  by (simp add: expiry_check_def)

lemma step_start_expired:
  assumes "the_instance w = Some self" and "initialized self"
    and "token_expiry self = Some expiry" and "expiry \<le> now"
    and "i < length (tasks w)" and "tasks w ! i = Start"
  shows "step w (start_turn i now) =
           w\<lparr>tasks := (tasks w)[i := AwaitRefresh],
             trace := trace w @ [TokenPost (token_url self)]\<rparr>"
  using assms
  by (simp add: step_def start_turn_def get_instance_start_def expiry_check_expired)

lemma start_all_snoc:
  "start_all (nows @ [now]) = start_all nows @ [start_turn (length nows) now]"
  by (simp add: start_all_def enumerate_append_eq)

lemma run_snoc: "run w (us @ [u]) = step (run w us) u"
  by (simp add: run_def)

lemma run_start_all:
  assumes "the_instance w = Some self" and "initialized self"
    and "token_expiry self = Some expiry" and "tasks w = replicate n Start"
  shows "list_all (\<lambda>now. expiry \<le> now) nows \<Longrightarrow> length nows \<le> n \<Longrightarrow>
     run w (start_all nows) =
       w\<lparr>tasks := replicate (length nows) AwaitRefresh @ replicate (n - length nows) Start,
         trace := trace w @ replicate (length nows) (TokenPost (token_url self))\<rparr>"
proof (induction nows rule: rev_induct)
  case Nil
  then show ?case using assms(4) by (simp add: start_all_def run_def)
next
  case (snoc now nows)
  let ?k = "length nows"
  let ?w = "w\<lparr>tasks := replicate ?k AwaitRefresh @ replicate (n - ?k) Start,
               trace := trace w @ replicate ?k (TokenPost (token_url self))\<rparr>"
  from snoc.prems have k: "?k < n" and late: "expiry \<le> now"
    and rest: "list_all (\<lambda>now. expiry \<le> now) nows" by simp_all
  from snoc.IH [OF rest] k have run: "run w (start_all nows) = ?w" by simp
  have more: "replicate (n - ?k) Start = Start # replicate (n - Suc ?k) Start"
    using k by (cases "n - ?k") (simp_all add: Suc_diff_Suc)
  have inst: "the_instance ?w = Some self" using assms(1) by simp
  have len: "?k < length (tasks ?w)" using k by simp
  have nth: "tasks ?w ! ?k = Start" by (simp add: nth_append more)
  have upd: "(tasks ?w)[?k := AwaitRefresh] =
      replicate (Suc ?k) AwaitRefresh @ replicate (n - Suc ?k) Start"
    by (simp add: more list_update_append replicate_append_same)
  have "run w (start_all (nows @ [now])) = step ?w (start_turn ?k now)"
    by (simp only: start_all_snoc run_snoc run)
  also have "\<dots> = ?w\<lparr>tasks := (tasks ?w)[?k := AwaitRefresh],
                        trace := trace ?w @ [TokenPost (token_url self)]\<rparr>"
    by (rule step_start_expired [OF inst assms(2,3) late len nth])
  also have "\<dots> = w\<lparr>tasks := replicate (length (nows @ [now])) AwaitRefresh
                          @ replicate (n - length (nows @ [now])) Start,
                      trace := trace w
                          @ replicate (length (nows @ [now])) (TokenPost (token_url self))\<rparr>"
    by (simp only: upd) (simp add: replicate_append_same)
  finally show ?case .
qed

text \<open>
  Claim C2, as the code has it.  \<^verbatim>\<open>get_instance\<close> takes no lock around the refresh: each
  call that finds the clock at or past \<^verbatim>\<open>token_expiry\<close> starts its own POST to the token
  endpoint.  When N calls start one after the other on an initialised object, each at a
  time at or past the expiry and before any POST has completed, N POSTs have been made
  and all N calls are waiting for theirs.
\<close>

theorem concurrent_refresh_posts:
  assumes "the_instance w = Some self" and "initialized self"
    and "token_expiry self = Some expiry"
    and "tasks w = replicate (length nows) Start"
    and "list_all (\<lambda>now. expiry \<le> now) nows"
  shows "token_posts (run w (start_all nows)) = token_posts w + length nows
         \<and> tasks (run w (start_all nows)) = replicate (length nows) AwaitRefresh"
  using run_start_all [OF assms(1-4) assms(5)]
  by (simp add: token_posts_def)

theorem concurrent_refresh_posts_witness:
  "list_all (\<lambda>now. (1000 :: int) \<le> now) [2000, 2001]
   \<and> token_posts (run \<lparr>the_instance = Some (fixture_govesb\<lparr>token_expiry := Some 1000,
                                                  initialized := True\<rparr>),
                        tasks = [Start, Start], trace = []\<rparr>
                    (start_all [2000, 2001])) = 2
   \<and> tasks (run \<lparr>the_instance = Some (fixture_govesb\<lparr>token_expiry := Some 1000,
                                              initialized := True\<rparr>),
                  tasks = [Start, Start], trace = []\<rparr>
              (start_all [2000, 2001])) = [AwaitRefresh, AwaitRefresh]"
proof -
  let ?self = "fixture_govesb\<lparr>token_expiry := Some 1000, initialized := True\<rparr>"
  let ?w = "\<lparr>the_instance = Some ?self, tasks = [Start, Start], trace = []\<rparr>"
  have a: "the_instance ?w = Some ?self" by simp
  have b: "initialized ?self" by simp
  have c: "token_expiry ?self = Some 1000" by simp
  have d: "tasks ?w = replicate (length [2000, 2001 :: int]) Start"
    by (simp add: numeral_2_eq_2)
  have e: "list_all (\<lambda>now. (1000 :: int) \<le> now) [2000, 2001]" by simp
  have p: "token_posts ?w = 0" by (simp add: token_posts_def)
  from concurrent_refresh_posts [OF a b c d e] e p show ?thesis
    by (simp add: numeral_2_eq_2)
qed

text \<open>Two calls on an expired token, both started before either POST completes, then
  both POSTs answered: two HTTP calls to the token endpoint, not one, and both calls
  return the instance.\<close>

theorem two_concurrent_refreshes_post_twice:
  "token_posts
     (run \<lparr>the_instance = Some (fixture_govesb\<lparr>access_token := JStr ''OLD'',
                                  token_expiry := Some 1000, initialized := True\<rparr>),
           tasks = [Start, Start], trace = []\<rparr>
        [start_turn 0 2000, start_turn 1 2000,
         \<lparr>task_id = 0, clock1 = 2001, clock2 = 2001,
          reply = Responded \<lparr>status_code = 200, json_body = Some (JObj
                    [(''access_token'', JStr ''NEW''), (''expires_in'', JInt 3600)])\<rparr>\<rparr>,
         \<lparr>task_id = 1, clock1 = 2002, clock2 = 2002,
          reply = Responded \<lparr>status_code = 200, json_body = Some (JObj
                    [(''access_token'', JStr ''NEW''), (''expires_in'', JInt 3600)])\<rparr>\<rparr>]) = 2
   \<and> tasks
     (run \<lparr>the_instance = Some (fixture_govesb\<lparr>access_token := JStr ''OLD'',
                                  token_expiry := Some 1000, initialized := True\<rparr>),
           tasks = [Start, Start], trace = []\<rparr>
        [start_turn 0 2000, start_turn 1 2000,
         \<lparr>task_id = 0, clock1 = 2001, clock2 = 2001,
          reply = Responded \<lparr>status_code = 200, json_body = Some (JObj
                    [(''access_token'', JStr ''NEW''), (''expires_in'', JInt 3600)])\<rparr>\<rparr>,
         \<lparr>task_id = 1, clock1 = 2002, clock2 = 2002,
          reply = Responded \<lparr>status_code = 200, json_body = Some (JObj
                    [(''access_token'', JStr ''NEW''), (''expires_in'', JInt 3600)])\<rparr>\<rparr>])
     = [Finished (Inr ()), Finished (Inr ())]"
  by code_simp

end
